theory Spec2Isabelle
  imports Complex_Main "HOL-Library.Log_Nat"
begin

section \<open>The container layout engine of pysg (pysg/drawing/container.py)\<close>

subsection \<open>Enumerations\<close>

text \<open>
  The three enums of the module. \<open>GAlign\<close> and \<open>GFillDirection\<close> share member names in
  the source (\<open>GAlign.TopLeft\<close>, \<open>GFillDirection.TopLeft\<close>); the constructors carry the
  class as a prefix to keep them apart.
\<close>

datatype GAlign =
  Align_NoAlign | Align_Top | Align_TopLeft | Align_TopRight | Align_Center
  | Align_Left | Align_Right | Align_Bottom | Align_BottomLeft | Align_BottomRight

datatype GFillDirection =
  Fill_TopLeft | Fill_TopRight | Fill_Left | Fill_Right | Fill_BottomLeft | Fill_BottomRight

datatype GOverflow = Visible | Hidden

definition GAlign_members :: "GAlign list" where
  "GAlign_members =
     [Align_NoAlign, Align_Top, Align_TopLeft, Align_TopRight, Align_Center,
      Align_Left, Align_Right, Align_Bottom, Align_BottomLeft, Align_BottomRight]"

definition GFillDirection_members :: "GFillDirection list" where
  "GFillDirection_members =
     [Fill_TopLeft, Fill_TopRight, Fill_Left, Fill_Right, Fill_BottomLeft, Fill_BottomRight]"

definition GOverflow_members :: "GOverflow list" where
  "GOverflow_members = [Visible, Hidden]"

text \<open>
  Python checks the class of a setter's argument at run time
  (\<open>isinstance(f, GFillDirection)\<close>). An argument is therefore either an instance of the
  expected class or some other object.
\<close>

datatype 'a py_arg = Inst 'a | Not_Inst

fun isinstance :: "'a py_arg \<Rightarrow> bool" where
  "isinstance (Inst v) = True"
| "isinstance Not_Inst = False"

subsection \<open>Shapes, colours, drawables\<close>

text \<open>
  Modelled from the spec: \<open>GShapeType\<close> of pysg/drawing/shape.py, which is not among the
  sources. The spec gives the two kinds Square and Ellipse.
\<close>

datatype GShapeType = Square | Ellipse

definition GShapeType_members :: "GShapeType list" where
  "GShapeType_members = [Square, Ellipse]"

fun member_name :: "GShapeType \<Rightarrow> string" where
  "member_name Square = ''Square''"
| "member_name Ellipse = ''Ellipse''"

text \<open>
  The \<open>shape_type\<close> attribute of a shape holds a member of \<open>GShapeType\<close> or, since Python
  does not enforce the annotation, a foreign object. The shape setter reads only its
  \<open>name\<close> attribute; \<open>Foreign n\<close> is a foreign object whose name is \<open>n\<close>.
\<close>

datatype shape_kind = Member GShapeType | Foreign string

fun kind_name :: "shape_kind \<Rightarrow> string" where
  "kind_name (Member m) = member_name m"
| "kind_name (Foreign n) = n"

text \<open>
  Colours: \<open>White\<close> is \<open>DefaultColors.White._get_color\<close> of pysg/drawing/color.py (not
  among the sources; kept symbolic), \<open>RGB\<close> a colour triple.
\<close>

datatype GColor = White | RGB int int int

text \<open>
  Modelled from the spec: \<open>GShape\<close> of pysg/drawing/shape.py (kind, size, border width,
  colour), built in the source as \<open>GShape(kind, size, border_size, color)\<close>.
\<close>

record GShape =
  shape_type :: shape_kind
  shape_size :: int
  border_size :: int
  color :: GColor

text \<open>
  Modelled from the spec: \<open>GDrawable\<close> of pysg/drawing/drawable.py: an identity number
  \<open>id\<close> and a shape. \<open>py_id\<close> is the value of Python's builtin \<open>id(obj)\<close> for the
  object, which the container uses as its dictionary key.
\<close>

record GDrawable =
  py_id :: nat
  drawable_id :: int
  drawable_shape :: GShape

subsection \<open>Errors\<close>

datatype error = ValueError string | Exception string | ZeroDivisionError | OverflowError

subsection \<open>True division of integers and \<open>math.floor\<close>\<close>

text \<open>
  \<open>a / b\<close> on two Python integers is a float: the exact quotient rounded to the nearest
  double, ties to the even significand. It raises ZeroDivisionError for a zero divisor
  and OverflowError when the rounded quotient does not fit a double. A finite double is
  a rational number, and the model returns it as one.

  A double has 53 significant bits. For a quotient \<open>q\<close> in the binade
  \<open>2 ^ e \<le> q < 2 ^ (e + 1)\<close> the doubles are the multiples of \<open>2 ^ (e - 52)\<close>; below
  \<open>2 ^ -1022\<close> (the subnormal range) they are the multiples of \<open>2 ^ -1074\<close>; from
  \<open>2 ^ 1024\<close> on there is none.
\<close>

definition round_half_even :: "rat \<Rightarrow> int" where
  "round_half_even x =
     (let f = \<lfloor>x\<rfloor>; r = x - of_int f
      in if r < 1 / 2 then f
         else if 1 / 2 < r then f + 1
         else if even f then f else f + 1)"

text \<open>The binade of \<open>a / b\<close> for positive \<open>a\<close> and \<open>b\<close>, from the bit lengths of the two.\<close>

definition binade :: "int \<Rightarrow> int \<Rightarrow> int" where
  "binade a b =
     (let k = bitlen a - bitlen b
      in if (2::rat) powi k * of_int b \<le> of_int a then k else k - 1)"

definition py_truediv :: "int \<Rightarrow> int \<Rightarrow> error + rat" where
  "py_truediv a b =
     (if b = 0 then Inl ZeroDivisionError
      else if a = 0 then Inr 0
      else let e = binade \<bar>a\<bar> \<bar>b\<bar>;
               quantum = (2::rat) powi (max e (- 1022) - 52);
               m = round_half_even (of_int \<bar>a\<bar> / of_int \<bar>b\<bar> / quantum);
               r = of_int m * quantum
           in if 2 powi 1024 \<le> r then Inl OverflowError
              else Inr (if (a < 0) = (b < 0) then r else - r))"

text \<open>\<open>math.floor\<close> of a finite float: the largest integer not above it.\<close>

definition math_floor :: "rat \<Rightarrow> int" where
  "math_floor f = \<lfloor>f\<rfloor>"

subsection \<open>The insertion-ordered dictionary \<open>_objects\<close>\<close>

text \<open>
  \<open>self._objects\<close> is a Python dict, which iterates in insertion order: an association
  list. The key of the source is the string \<open>f"{id(obj)}"\<close>; the decimal rendering of an
  integer is one-to-one, so the model keeps the integer itself as the key.
\<close>

type_synonym objects = "(nat \<times> GDrawable) list"

definition dict_contains :: "nat \<Rightarrow> objects \<Rightarrow> bool" where
  "dict_contains k d = (k \<in> set (map fst d))"

fun dict_set :: "nat \<Rightarrow> GDrawable \<Rightarrow> objects \<Rightarrow> objects" where
  "dict_set k v [] = [(k, v)]"
| "dict_set k v ((k', v') # d) =
     (if k' = k then (k, v) # d else (k', v') # dict_set k v d)"

fun dict_del :: "nat \<Rightarrow> objects \<Rightarrow> objects" where
  "dict_del k [] = []"
| "dict_del k ((k', v') # d) = (if k' = k then d else (k', v') # dict_del k d)"

definition dict_values :: "objects \<Rightarrow> GDrawable list" where
  "dict_values d = map snd d"

subsection \<open>GContainerBase\<close>

text \<open>
  The fields of a container, named after the private attributes \<open>_id\<close>, \<open>_objects\<close>,
  \<open>_size\<close>, ... of the source.
\<close>

record GContainer =
  c_id :: nat
  c_objects :: objects
  c_size :: "int \<times> int"
  c_position :: "int \<times> int"
  c_shape :: GShape
  c_align :: GAlign
  c_fill_direction :: GFillDirection
  c_overflow :: GOverflow
  c_padding :: int
  c_spacing :: int

text \<open>\<open>_set_shape\<close>: the default shape when none is given, else the argument itself.\<close>

definition helper_set_shape :: "GShape option \<Rightarrow> GShape" where
  "helper_set_shape s =
     (case s of
        None \<Rightarrow> \<lparr>shape_type = Member Square, shape_size = 10, border_size = 2, color = White\<rparr>
      | Some s' \<Rightarrow> s')"

text \<open>
  \<open>GContainerBase.__init__\<close>. The first argument is the number that
  \<open>next(self._object_id_counter)\<close> yields. Every field is assigned directly; no setter
  runs.
\<close>

definition GContainerBase_init ::
  "nat \<Rightarrow> int \<times> int \<Rightarrow> int \<times> int \<Rightarrow> GShape option \<Rightarrow> GAlign \<Rightarrow> GFillDirection
     \<Rightarrow> GOverflow \<Rightarrow> int \<Rightarrow> int \<Rightarrow> GContainer" where
  "GContainerBase_init n size' position shape align fill_direction overflow padding spacing =
     \<lparr>c_id = n, c_objects = [], c_size = size', c_position = position,
      c_shape = helper_set_shape shape, c_align = align,
      c_fill_direction = fill_direction, c_overflow = overflow,
      c_padding = padding, c_spacing = spacing\<rparr>"

definition len :: "GContainer \<Rightarrow> nat" where
  "len c = length (c_objects c)"

text \<open>
  The property getters. The getter of \<open>size\<close> returns \<open>self._position\<close> in the source.
\<close>

definition id_getter :: "GContainer \<Rightarrow> nat" where
  "id_getter c = c_id c"

definition size_getter :: "GContainer \<Rightarrow> int \<times> int" where
  "size_getter c = c_position c"

definition position_getter :: "GContainer \<Rightarrow> int \<times> int" where
  "position_getter c = c_position c"

definition shape_getter :: "GContainer \<Rightarrow> GShape" where
  "shape_getter c = c_shape c"

definition align_getter :: "GContainer \<Rightarrow> GAlign" where
  "align_getter c = c_align c"

definition fill_direction_getter :: "GContainer \<Rightarrow> GFillDirection" where
  "fill_direction_getter c = c_fill_direction c"

definition overflow_getter :: "GContainer \<Rightarrow> GOverflow" where
  "overflow_getter c = c_overflow c"

definition padding_getter :: "GContainer \<Rightarrow> int" where
  "padding_getter c = c_padding c"

definition spacing_getter :: "GContainer \<Rightarrow> int" where
  "spacing_getter c = c_spacing c"

text \<open>
  The setters and the membership methods mutate \<open>self\<close> or raise. Each returns the
  exception raised, if any, together with the container as it is after the call.
\<close>

definition size_setter :: "int \<times> int \<Rightarrow> GContainer \<Rightarrow> error option \<times> GContainer" where
  "size_setter s c =
     (if fst s \<le> 0 \<or> snd s \<le> 0
      then (Some (ValueError ''Negative or zero values supplied to size''), c)
      else (None, c\<lparr>c_size := s\<rparr>))"

definition position_setter :: "int \<times> int \<Rightarrow> GContainer \<Rightarrow> error option \<times> GContainer" where
  "position_setter p c =
     (if c_align c = Align_NoAlign \<and> (fst p < 0 \<or> snd p < 0)
      then (Some (ValueError ''Negative values supplied to position''), c)
      else (None, c\<lparr>c_position := p\<rparr>))"

definition vals :: "string list" where
  "vals = map member_name GShapeType_members"

definition shape_setter :: "GShape \<Rightarrow> GContainer \<Rightarrow> error option \<times> GContainer" where
  "shape_setter s c =
     (if kind_name (shape_type s) \<notin> set vals
      then (Some (ValueError ''Invalid shape type supplied''), c)
      else if border_size s < - 1
      then (None, c\<lparr>c_shape := s\<lparr>border_size := - 1\<rparr>\<rparr>)
      else (None, c\<lparr>c_shape := s\<rparr>))"

fun align_setter :: "GAlign py_arg \<Rightarrow> GContainer \<Rightarrow> error option \<times> GContainer" where
  "align_setter Not_Inst c = (Some (ValueError ''Invalid align type supplied''), c)"
| "align_setter (Inst a) c =
     (if a \<notin> set GAlign_members
      then (Some (ValueError ''Invalid align value supplied''), c)
      else (None, c\<lparr>c_align := a\<rparr>))"

fun overflow_setter :: "GOverflow py_arg \<Rightarrow> GContainer \<Rightarrow> error option \<times> GContainer" where
  "overflow_setter Not_Inst c = (Some (ValueError ''Invalid overflow type supplied''), c)"
| "overflow_setter (Inst o') c =
     (if o' \<notin> set GOverflow_members
      then (Some (ValueError ''Invalid overflow value supplied''), c)
      else (None, c\<lparr>c_overflow := o'\<rparr>))"

definition padding_setter :: "int \<Rightarrow> GContainer \<Rightarrow> error option \<times> GContainer" where
  "padding_setter p c =
     (if p < 0 then (Some (ValueError ''Negative padding supplied''), c)
      else (None, c\<lparr>c_padding := p\<rparr>))"

definition spacing_setter :: "int \<Rightarrow> GContainer \<Rightarrow> error option \<times> GContainer" where
  "spacing_setter s c =
     (if s < 0 then (Some (ValueError ''Negative spacing supplied''), c)
      else (None, c\<lparr>c_spacing := s\<rparr>))"

definition enter :: "GDrawable \<Rightarrow> GContainer \<Rightarrow> error option \<times> GContainer" where
  "enter obj c =
     (if dict_contains (py_id obj) (c_objects c)
      then (Some (Exception ''Object already in this container''), c)
      else (None, c\<lparr>c_objects := dict_set (py_id obj) obj (c_objects c)\<rparr>))"

definition leave :: "GDrawable \<Rightarrow> GContainer \<Rightarrow> error option \<times> GContainer" where
  "leave obj c =
     (if \<not> dict_contains (py_id obj) (c_objects c)
      then (Some (Exception ''Object not in this container''), c)
      else (None, c\<lparr>c_objects := dict_del (py_id obj) (c_objects c)\<rparr>))"

subsection \<open>The fill direction setters\<close>

text \<open>
  Row and Column share one setter body: the corner directions collapse to \<open>Left\<close> and
  \<open>Right\<close>. Grid collapses the other way.
\<close>

fun GContainerRow_fill_direction_setter ::
  "GFillDirection py_arg \<Rightarrow> GContainer \<Rightarrow> error option \<times> GContainer" where
  "GContainerRow_fill_direction_setter Not_Inst c =
     (Some (ValueError ''Invalid fill direction type supplied''), c)"
| "GContainerRow_fill_direction_setter (Inst f) c =
     (if f \<notin> set GFillDirection_members
      then (Some (ValueError ''Invalid fill direction value supplied''), c)
      else if f = Fill_TopLeft \<or> f = Fill_BottomLeft
      then (None, c\<lparr>c_fill_direction := Fill_Left\<rparr>)
      else if f = Fill_TopRight \<or> f = Fill_BottomRight
      then (None, c\<lparr>c_fill_direction := Fill_Right\<rparr>)
      else (None, c\<lparr>c_fill_direction := f\<rparr>))"

fun GContainerColumn_fill_direction_setter ::
  "GFillDirection py_arg \<Rightarrow> GContainer \<Rightarrow> error option \<times> GContainer" where
  "GContainerColumn_fill_direction_setter Not_Inst c =
     (Some (ValueError ''Invalid fill direction type supplied''), c)"
| "GContainerColumn_fill_direction_setter (Inst f) c =
     (if f \<notin> set GFillDirection_members
      then (Some (ValueError ''Invalid fill direction value supplied''), c)
      else if f = Fill_TopLeft \<or> f = Fill_BottomLeft
      then (None, c\<lparr>c_fill_direction := Fill_Left\<rparr>)
      else if f = Fill_TopRight \<or> f = Fill_BottomRight
      then (None, c\<lparr>c_fill_direction := Fill_Right\<rparr>)
      else (None, c\<lparr>c_fill_direction := f\<rparr>))"

fun GcontainerGrid_fill_direction_setter ::
  "GFillDirection py_arg \<Rightarrow> GContainer \<Rightarrow> error option \<times> GContainer" where
  "GcontainerGrid_fill_direction_setter Not_Inst c =
     (Some (ValueError ''Invalid fill direction type supplied''), c)"
| "GcontainerGrid_fill_direction_setter (Inst f) c =
     (if f \<notin> set GFillDirection_members
      then (Some (ValueError ''Invalid fill direction value supplied''), c)
      else if f = Fill_Left
      then (None, c\<lparr>c_fill_direction := Fill_TopLeft\<rparr>)
      else if f = Fill_Right
      then (None, c\<lparr>c_fill_direction := Fill_TopRight\<rparr>)
      else (None, c\<lparr>c_fill_direction := f\<rparr>))"

subsection \<open>The constructors of the three container kinds\<close>

text \<open>
  Each calls the base constructor without \<open>fill_direction\<close> and \<open>spacing\<close> (so the
  defaults \<open>TopLeft\<close> and \<open>5\<close> are stored), then assigns \<open>fill_direction\<close> through the
  setter of its class. An exception of the setter leaves no object.
\<close>

definition GContainerRow_init ::
  "nat \<Rightarrow> int \<times> int \<Rightarrow> int \<times> int \<Rightarrow> GShape option \<Rightarrow> GAlign \<Rightarrow> GFillDirection py_arg
     \<Rightarrow> GOverflow \<Rightarrow> int \<Rightarrow> error + GContainer" where
  "GContainerRow_init n size' position shape align fill_direction overflow padding =
     (case GContainerRow_fill_direction_setter fill_direction
             (GContainerBase_init n size' position shape align Fill_TopLeft overflow padding 5) of
        (Some e, c) \<Rightarrow> Inl e
      | (None, c) \<Rightarrow> Inr c)"

definition GContainerColumn_init ::
  "nat \<Rightarrow> int \<times> int \<Rightarrow> int \<times> int \<Rightarrow> GShape option \<Rightarrow> GAlign \<Rightarrow> GFillDirection py_arg
     \<Rightarrow> GOverflow \<Rightarrow> int \<Rightarrow> error + GContainer" where
  "GContainerColumn_init n size' position shape align fill_direction overflow padding =
     (case GContainerColumn_fill_direction_setter fill_direction
             (GContainerBase_init n size' position shape align Fill_TopLeft overflow padding 5) of
        (Some e, c) \<Rightarrow> Inl e
      | (None, c) \<Rightarrow> Inr c)"

definition GcontainerGrid_init ::
  "nat \<Rightarrow> int \<times> int \<Rightarrow> int \<times> int \<Rightarrow> GShape option \<Rightarrow> GAlign \<Rightarrow> GFillDirection py_arg
     \<Rightarrow> GOverflow \<Rightarrow> int \<Rightarrow> error + GContainer" where
  "GcontainerGrid_init n size' position shape align fill_direction overflow padding =
     (case GcontainerGrid_fill_direction_setter fill_direction
             (GContainerBase_init n size' position shape align Fill_TopLeft overflow padding 5) of
        (Some e, c) \<Rightarrow> Inl e
      | (None, c) \<Rightarrow> Inr c)"

subsection \<open>Drawing\<close>

text \<open>
  The surface is an external collaborator. A draw pass is modelled by the calls it issues
  on the surface, in order: \<open>Draw_rect\<close> and \<open>Draw_ellipse\<close> are
  \<open>pygame.draw.rect\<close> and \<open>pygame.draw.ellipse\<close> with a border width,
  \<open>Fill_rect\<close> and \<open>Fill_ellipse\<close> the same calls without one (the members' shapes),
  \<open>Blit_text\<close> the blit of a member's rendered \<open>id\<close> at a position.
\<close>

type_synonym rect = "int \<times> int \<times> int \<times> int"

datatype draw_call =
  Draw_rect GColor rect int
  | Draw_ellipse GColor rect int
  | Fill_rect GColor rect
  | Fill_ellipse GColor rect
  | Blit_text int "rat \<times> rat"

text \<open>
  The frame, drawn first by every \<open>draw\<close>: a rectangle when the container's shape is a
  Square, an ellipse otherwise, in white, with the border width read through the
  \<open>shape\<close> getter.
\<close>

definition draw_frame :: "GContainer \<Rightarrow> draw_call list" where
  "draw_frame c =
     (let x = fst (c_position c); y = snd (c_position c);
          width = fst (c_size c); height = snd (c_size c)
      in if shape_type (c_shape c) = Member Square
         then [Draw_rect White (x, y, width, height) (border_size (shape_getter c))]
         else [Draw_ellipse White (x, y, width, height) (border_size (shape_getter c))])"

text \<open>
  \<open>biggest_size\<close>: the sizes of the members, sorted in descending order, first element.
  It is computed only after the early return on an empty container.
\<close>

definition biggest_size :: "GDrawable list \<Rightarrow> int" where
  "biggest_size obj_entries =
     hd (rev (sort (map (\<lambda>o'. shape_size (drawable_shape o')) obj_entries)))"

text \<open>
  The label of a member is blitted at the centre of the rectangle that the surface
  returned for the member's shape, minus \<open>biggest_size / 4\<close> on both axes (a true
  division; a quarter of an integer is exact in a float, hence a rational here). What
  the surface returns is the collaborator's business: \<open>centre\<close> gives, for a call, the
  centre of the rectangle returned.
\<close>

definition label_position :: "(draw_call \<Rightarrow> int \<times> int) \<Rightarrow> draw_call \<Rightarrow> int \<Rightarrow> rat \<times> rat" where
  "label_position centre call biggest =
     (of_int (fst (centre call)) - of_int biggest / 4,
      of_int (snd (centre call)) - of_int biggest / 4)"

text \<open>The tail of each loop body: the member's shape at its slot, then its label.\<close>

definition draw_item ::
  "(draw_call \<Rightarrow> int \<times> int) \<Rightarrow> int \<Rightarrow> GDrawable \<Rightarrow> int \<Rightarrow> int \<Rightarrow> draw_call list" where
  "draw_item centre biggest o' x_l y_l =
     (let size' = shape_size (drawable_shape o');
          call = (if shape_type (drawable_shape o') = Member Square
                  then Fill_rect (color (drawable_shape o')) (x_l, y_l, size', size')
                  else Fill_ellipse (color (drawable_shape o')) (x_l, y_l, size', size'))
      in [call, Blit_text (drawable_id o') (label_position centre call biggest)])"

subsubsection \<open>GContainerRow.draw\<close>

definition Row_x_l :: "GContainer \<Rightarrow> int \<Rightarrow> int \<Rightarrow> int" where
  "Row_x_l c biggest i =
     (let x = fst (c_position c); width = fst (c_size c)
      in if c_fill_direction c = Fill_Left
         then x + (i * biggest) + (i * c_spacing c) + c_padding c
         else (x + width) - (i * biggest) - (i * c_spacing c) - c_padding c - biggest)"

text \<open>The overflow test of the loop body: true when the body takes \<open>continue\<close>.\<close>

definition Row_culled :: "GContainer \<Rightarrow> int \<Rightarrow> int \<Rightarrow> bool" where
  "Row_culled c biggest x_l =
     (c_overflow c = Hidden \<and>
      (if c_fill_direction c = Fill_Right
       then x_l < fst (c_position c)
       else x_l + biggest > fst (c_position c) + fst (c_size c)))"

fun Row_loop ::
  "(draw_call \<Rightarrow> int \<times> int) \<Rightarrow> GContainer \<Rightarrow> int \<Rightarrow> int \<Rightarrow> GDrawable list \<Rightarrow> draw_call list" where
  "Row_loop centre c biggest i [] = []"
| "Row_loop centre c biggest i (o' # os) =
     (let x_l = Row_x_l c biggest i;
          y_l = snd (c_position c) + c_padding c
      in (if Row_culled c biggest x_l then [] else draw_item centre biggest o' x_l y_l)
         @ Row_loop centre c biggest (i + 1) os)"

text \<open>
  \<open>draw\<close> assigns to no attribute of \<open>self\<close>: the container is returned as it was, next
  to the calls issued.
\<close>

definition GContainerRow_draw ::
  "(draw_call \<Rightarrow> int \<times> int) \<Rightarrow> GContainer \<Rightarrow> GContainer \<times> draw_call list" where
  "GContainerRow_draw centre c =
     (if len c = 0 then (c, draw_frame c)
      else let obj_entries = dict_values (c_objects c);
               biggest = biggest_size obj_entries
           in (c, draw_frame c @ Row_loop centre c biggest 0 obj_entries))"

subsubsection \<open>GcontainerGrid.draw\<close>

text \<open>
  Modelled from the spec: \<open>array_chunks\<close> of pysg/util, which is not among the sources.
  The spec describes it as splitting a sequence, in order, into groups of a fixed size,
  the last group possibly short, and calls the result for a group size of 0 undefined:
  \<open>None\<close> stands for that case.
\<close>

function chunks_of :: "nat \<Rightarrow> 'a list \<Rightarrow> 'a list list" where
  "chunks_of n xs = (if n = 0 \<or> xs = [] then [] else take n xs # chunks_of n (drop n xs))"
  by pat_completeness auto
termination
  by (relation "measure (\<lambda>(n, xs). length xs)") auto

declare chunks_of.simps [simp del]

definition array_chunks :: "'a list \<Rightarrow> int \<Rightarrow> 'a list list option" where
  "array_chunks xs n = (if n < 1 then None else Some (chunks_of (nat n) xs))"

text \<open>
  How a step of \<open>draw\<close> can end: with a value, with an exception, or in the case that the
  spec leaves undefined.
\<close>

datatype 'a attempt = Done 'a | Raises error | Unspecified

text \<open>
  \<open>max_grid_w = math.floor(width / (biggest_size + self._spacing))\<close>: a true division,
  hence a float, then its floor. The division raises on a zero divisor and on a
  quotient beyond the doubles.
\<close>

definition Grid_max_grid_w :: "GContainer \<Rightarrow> GDrawable list \<Rightarrow> int attempt" where
  "Grid_max_grid_w c obj_entries =
     (let biggest = biggest_size obj_entries
      in case py_truediv (fst (c_size c)) (biggest + c_spacing c) of
           Inl e \<Rightarrow> Raises e
         | Inr f \<Rightarrow> Done (math_floor f))"

definition Grid_chunked :: "GContainer \<Rightarrow> GDrawable list \<Rightarrow> GDrawable list list attempt" where
  "Grid_chunked c obj_entries =
     (case Grid_max_grid_w c obj_entries of
        Raises e \<Rightarrow> Raises e
      | Unspecified \<Rightarrow> Unspecified
      | Done max_grid_w \<Rightarrow>
          (case array_chunks obj_entries max_grid_w of
             None \<Rightarrow> Unspecified
           | Some chunked \<Rightarrow> Done chunked))"

text \<open>The slot \<open>(x_l, y_l)\<close> of the member at column \<open>i\<close> of chunk \<open>j\<close>.\<close>

definition Grid_slot :: "GContainer \<Rightarrow> int \<Rightarrow> int \<Rightarrow> int \<Rightarrow> int \<times> int" where
  "Grid_slot c biggest i j =
     (let x = fst (c_position c); y = snd (c_position c);
          width = fst (c_size c); height = snd (c_size c)
      in if c_fill_direction c = Fill_TopLeft
         then (x + (i * biggest) + (i * c_spacing c) + c_padding c,
               y + (j * biggest) + (j * c_spacing c) + c_padding c)
         else if c_fill_direction c = Fill_TopRight
         then ((x + width) - (i * biggest) - (i * c_spacing c) - c_padding c - biggest,
               y + (j * biggest) + (j * c_spacing c) + c_padding c)
         else if c_fill_direction c = Fill_BottomLeft
         then (x + (i * biggest) + (i * c_spacing c) + c_padding c,
               (y + height) - (j * biggest) - (j * c_spacing c) - c_padding c - biggest)
         else if c_fill_direction c = Fill_BottomRight
         then ((x + width) - (i * biggest) - (i * c_spacing c) - c_padding c - biggest,
               (y + height) - (j * biggest) - (j * c_spacing c) - c_padding c - biggest)
         else (0, 0))"

text \<open>
  The overflow test of the inner loop body. On the horizontal axis the source reads
  \<open>self._size[0]\<close>; on the vertical axis, for TopLeft and TopRight, it reads
  \<open>self.size[1]\<close>, that is, the \<open>size\<close> getter.
\<close>

definition Grid_culled :: "GContainer \<Rightarrow> int \<Rightarrow> int \<Rightarrow> int \<Rightarrow> bool" where
  "Grid_culled c biggest x_l y_l =
     (let x = fst (c_position c); y = snd (c_position c)
      in c_overflow c = Hidden \<and>
         (if c_fill_direction c = Fill_TopLeft
          then x_l + biggest > x + fst (c_size c) \<or> y_l + biggest > y + snd (size_getter c)
          else if c_fill_direction c = Fill_TopRight
          then x_l < x \<or> y_l + biggest > y + snd (size_getter c)
          else if c_fill_direction c = Fill_BottomLeft
          then x_l + biggest > x + fst (c_size c) \<or> y_l < y
          else if c_fill_direction c = Fill_BottomRight
          then x_l < x \<or> y_l < y
          else False))"

fun Grid_inner_loop ::
  "(draw_call \<Rightarrow> int \<times> int) \<Rightarrow> GContainer \<Rightarrow> int \<Rightarrow> int \<Rightarrow> int \<Rightarrow> GDrawable list
     \<Rightarrow> draw_call list" where
  "Grid_inner_loop centre c biggest j i [] = []"
| "Grid_inner_loop centre c biggest j i (o' # os) =
     (let x_l = fst (Grid_slot c biggest i j);
          y_l = snd (Grid_slot c biggest i j)
      in (if Grid_culled c biggest x_l y_l then [] else draw_item centre biggest o' x_l y_l)
         @ Grid_inner_loop centre c biggest j (i + 1) os)"

fun Grid_loop ::
  "(draw_call \<Rightarrow> int \<times> int) \<Rightarrow> GContainer \<Rightarrow> int \<Rightarrow> int \<Rightarrow> GDrawable list list
     \<Rightarrow> draw_call list" where
  "Grid_loop centre c biggest j [] = []"
| "Grid_loop centre c biggest j (o_a # rest) =
     Grid_inner_loop centre c biggest j 0 o_a @ Grid_loop centre c biggest (j + 1) rest"

text \<open>
  The draw pass returns the container, the calls issued, and how the pass ended. The
  frame is on the surface before anything can fail.
\<close>

definition GcontainerGrid_draw ::
  "(draw_call \<Rightarrow> int \<times> int) \<Rightarrow> GContainer \<Rightarrow> GContainer \<times> draw_call list \<times> unit attempt" where
  "GcontainerGrid_draw centre c =
     (if len c = 0 then (c, draw_frame c, Done ())
      else let obj_entries = dict_values (c_objects c);
               biggest = biggest_size obj_entries
           in case Grid_chunked c obj_entries of
                Raises e \<Rightarrow> (c, draw_frame c, Raises e)
              | Unspecified \<Rightarrow> (c, draw_frame c, Unspecified)
              | Done obj_entries_chunked \<Rightarrow>
                  (c, draw_frame c @ Grid_loop centre c biggest 0 obj_entries_chunked, Done ()))"

subsection \<open>Scenarios\<close>

text \<open>
  Concrete containers and members on which the properties below are run. A recording
  surface that is large enough returns the rectangle it was asked to draw;
  \<open>recording_centre\<close> is the centre of that rectangle.
\<close>

definition recording_centre :: "draw_call \<Rightarrow> int \<times> int" where
  "recording_centre call =
     (case call of
        Draw_rect col (x, y, w, h) b \<Rightarrow> (x + w div 2, y + h div 2)
      | Draw_ellipse col (x, y, w, h) b \<Rightarrow> (x + w div 2, y + h div 2)
      | Fill_rect col (x, y, w, h) \<Rightarrow> (x + w div 2, y + h div 2)
      | Fill_ellipse col (x, y, w, h) \<Rightarrow> (x + w div 2, y + h div 2)
      | Blit_text t p \<Rightarrow> (0, 0))"

definition square30 :: "nat \<Rightarrow> GDrawable" where
  "square30 k =
     \<lparr>py_id = k, drawable_id = int k,
      drawable_shape = \<lparr>shape_type = Member Square, shape_size = 30, border_size = 0,
                        color = RGB 255 0 0\<rparr>\<rparr>"

definition default_shape :: GShape where
  "default_shape = \<lparr>shape_type = Member Square, shape_size = 10, border_size = 2, color = White\<rparr>"

text \<open>An empty container of size \<open>(100, 50)\<close> at the origin, as the base constructor builds it.\<close>

definition scenario_base :: GContainer where
  "scenario_base =
     GContainerBase_init 0 (100, 50) (0, 0) None Align_NoAlign Fill_Left Visible 5 5"

text \<open>
  The Row of the overflow scenario: size \<open>(100, 50)\<close> at \<open>(0, 0)\<close>, padding and spacing 0,
  fill direction Left, overflow Hidden, five squares of size 30.
\<close>

definition scenario_row :: GContainer where
  "scenario_row =
     \<lparr>c_id = 0,
      c_objects = [(1, square30 1), (2, square30 2), (3, square30 3), (4, square30 4), (5, square30 5)],
      c_size = (100, 50), c_position = (0, 0), c_shape = default_shape,
      c_align = Align_NoAlign, c_fill_direction = Fill_Left, c_overflow = Hidden,
      c_padding = 0, c_spacing = 0\<rparr>"

text \<open>
  A Grid of size \<open>(100, 100)\<close> at \<open>(0, 0)\<close>, as its constructor builds it with padding 0
  and overflow Hidden, after one square of size 30 has entered.
\<close>

definition scenario_grid :: GContainer where
  "scenario_grid =
     \<lparr>c_id = 0, c_objects = [(1, square30 1)],
      c_size = (100, 100), c_position = (0, 0), c_shape = default_shape,
      c_align = Align_NoAlign, c_fill_direction = Fill_TopLeft, c_overflow = Hidden,
      c_padding = 0, c_spacing = 5\<rparr>"

text \<open>The Grid of the chunking scenario: width 100, spacing 10, five squares of size 30.\<close>

definition scenario_chunks :: GContainer where
  "scenario_chunks =
     \<lparr>c_id = 0,
      c_objects = [(1, square30 1), (2, square30 2), (3, square30 3), (4, square30 4), (5, square30 5)],
      c_size = (100, 100), c_position = (0, 0), c_shape = default_shape,
      c_align = Align_NoAlign, c_fill_direction = Fill_TopLeft, c_overflow = Visible,
      c_padding = 5, c_spacing = 10\<rparr>"

text \<open>A Grid wider than the integers a double holds exactly: width \<open>2 ^ 53 + 1\<close>, spacing 0, one square of size 1.\<close>

definition scenario_wide :: GContainer where
  "scenario_wide =
     \<lparr>c_id = 0,
      c_objects = [(1, \<lparr>py_id = 1, drawable_id = 1,
                        drawable_shape = \<lparr>shape_type = Member Square, shape_size = 1,
                                          border_size = 0, color = RGB 255 0 0\<rparr>\<rparr>)],
      c_size = (9007199254740993, 50), c_position = (0, 0), c_shape = default_shape,
      c_align = Align_NoAlign, c_fill_direction = Fill_TopLeft, c_overflow = Visible,
      c_padding = 5, c_spacing = 0\<rparr>"

text \<open>A Grid narrower than one slot: width 20, spacing 10, one square of size 30.\<close>

definition scenario_narrow :: GContainer where
  "scenario_narrow =
     \<lparr>c_id = 0, c_objects = [(1, square30 1)],
      c_size = (20, 50), c_position = (0, 0), c_shape = default_shape,
      c_align = Align_NoAlign, c_fill_direction = Fill_TopLeft, c_overflow = Visible,
      c_padding = 5, c_spacing = 10\<rparr>"

section \<open>Properties\<close>

subsection \<open>Auxiliary facts\<close>

lemma GFillDirection_member: "f \<in> set GFillDirection_members"
  by (cases f) (simp_all add: GFillDirection_members_def)

lemma Row_init_Inst:
  "GContainerRow_init n s p sh a (Inst fd) ov pad =
     Inr (snd (GContainerRow_fill_direction_setter (Inst fd)
                 (GContainerBase_init n s p sh a Fill_TopLeft ov pad 5)))"
  by (simp add: GContainerRow_init_def GFillDirection_member)

lemma Column_init_Inst:
  "GContainerColumn_init n s p sh a (Inst fd) ov pad =
     Inr (snd (GContainerColumn_fill_direction_setter (Inst fd)
                 (GContainerBase_init n s p sh a Fill_TopLeft ov pad 5)))"
  by (simp add: GContainerColumn_init_def GFillDirection_member)

lemma Grid_init_Inst:
  "GcontainerGrid_init n s p sh a (Inst fd) ov pad =
     Inr (snd (GcontainerGrid_fill_direction_setter (Inst fd)
                 (GContainerBase_init n s p sh a Fill_TopLeft ov pad 5)))"
  by (simp add: GcontainerGrid_init_def GFillDirection_member)

text \<open>Rounding to the nearest integer moves a number by at most a half.\<close>

lemma round_half_even_bounds:
  "of_int (round_half_even x) \<le> x + 1 / 2 \<and> x - 1 / 2 \<le> of_int (round_half_even x)"
proof -
  define f where "f = \<lfloor>x\<rfloor>"
  have fl: "of_int f \<le> x" "x < of_int f + 1"
    unfolding f_def by linarith+
  consider (lo) "x - of_int f < 1 / 2" | (hi) "1 / 2 < x - of_int f" | (tie) "x - of_int f = 1 / 2"
    by linarith
  then show ?thesis
  proof cases
    case lo
    then have "round_half_even x = f"
      by (simp add: round_half_even_def f_def)
    with fl lo show ?thesis by simp
  next
    case hi
    then have "round_half_even x = f + 1"
      by (simp add: round_half_even_def f_def)
    with fl hi show ?thesis by simp
  next
    case tie
    then have "round_half_even x = f \<or> round_half_even x = f + 1"
      by (simp add: round_half_even_def f_def Let_def)
    with fl tie show ?thesis by auto
  qed
qed

lemma binade_bounds:
  assumes a: "0 < a" and b: "0 < b"
  shows "(2::rat) powi (binade a b) \<le> of_int a / of_int b
       \<and> of_int a / of_int b < (2::rat) powi (binade a b + 1)"
proof -
  let ?k = "bitlen a - bitlen b"
  have ra: "(0::rat) < of_int a" and rb: "(0::rat) < of_int b"
    using a b by simp_all
  have la: "(2::int) ^ nat (bitlen a - 1) \<le> a" and ua: "a < (2::int) ^ nat (bitlen a)"
    using bitlen_bounds [OF a] by simp_all
  have lb: "(2::int) ^ nat (bitlen b - 1) \<le> b" and ub: "b < (2::int) ^ nat (bitlen b)"
    using bitlen_bounds [OF b] by simp_all
  have pa: "1 \<le> bitlen a" and pb: "1 \<le> bitlen b"
    using a b by (simp_all add: bitlen_alt_def)
  have la': "(2::rat) powi (bitlen a - 1) \<le> of_int a"
  proof -
    have "(of_int ((2::int) ^ nat (bitlen a - 1)) :: rat) \<le> of_int a"
      using la by (simp only: of_int_le_iff)
    then show ?thesis using pa by (simp add: power_int_def)
  qed
  have ua': "of_int a < (2::rat) powi (bitlen a)"
  proof -
    have "(of_int a :: rat) < of_int ((2::int) ^ nat (bitlen a))"
      using ua by (simp only: of_int_less_iff)
    then show ?thesis using pa by (simp add: power_int_def)
  qed
  have lb': "(2::rat) powi (bitlen b - 1) \<le> of_int b"
  proof -
    have "(of_int ((2::int) ^ nat (bitlen b - 1)) :: rat) \<le> of_int b"
      using lb by (simp only: of_int_le_iff)
    then show ?thesis using pb by (simp add: power_int_def)
  qed
  have ub': "of_int b < (2::rat) powi (bitlen b)"
  proof -
    have "(of_int b :: rat) < of_int ((2::int) ^ nat (bitlen b))"
      using ub by (simp only: of_int_less_iff)
    then show ?thesis using pb by (simp add: power_int_def)
  qed
  have pos: "\<And>n. (0::rat) < 2 powi n"
    by (simp add: zero_less_power_int)
  show ?thesis
  proof (cases "(2::rat) powi ?k * of_int b \<le> of_int a")
    case True
    then have e: "binade a b = ?k" by (simp add: binade_def)
    from True rb have low: "(2::rat) powi ?k \<le> of_int a / of_int b"
      by (simp add: pos_le_divide_eq)
    have "of_int a < (2::rat) powi (?k + 1) * of_int b"
    proof -
      have "(2::rat) powi (?k + 1) * 2 powi (bitlen b - 1) = 2 powi (bitlen a)"
        by (simp add: power_int_add [symmetric])
      moreover have "(2::rat) powi (?k + 1) * 2 powi (bitlen b - 1) \<le> 2 powi (?k + 1) * of_int b"
        using lb' pos [of "?k + 1"] by (simp only: mult_le_cancel_left_pos)
      ultimately show ?thesis using ua' by linarith
    qed
    then have "of_int a / of_int b < (2::rat) powi (?k + 1)"
      using rb by (simp add: pos_divide_less_eq)
    with low e show ?thesis by simp
  next
    case False
    then have e: "binade a b = ?k - 1" by (simp add: binade_def)
    from False rb have up: "of_int a / of_int b < (2::rat) powi ?k"
      by (simp add: pos_divide_less_eq)
    have "(2::rat) powi (?k - 1) * of_int b \<le> of_int a"
    proof -
      have "(2::rat) powi (?k - 1) * 2 powi (bitlen b) = 2 powi (bitlen a - 1)"
        by (simp add: power_int_add [symmetric])
      moreover have "(2::rat) powi (?k - 1) * of_int b \<le> 2 powi (?k - 1) * 2 powi (bitlen b)"
        using ub' pos [of "?k - 1"] by (simp only: mult_le_cancel_left_pos less_imp_le)
      ultimately show ?thesis using la' by linarith
    qed
    then have "(2::rat) powi (?k - 1) \<le> of_int a / of_int b"
      using rb by (simp add: pos_le_divide_eq)
    with up e show ?thesis by simp
  qed
qed

text \<open>
  The floor of the true division is the floor division of the integers while the
  dividend is below \<open>2 ^ 53\<close> and the divisor is positive and at most the dividend.
\<close>

lemma floor_truediv_exact:
  assumes b: "0 < b" and ba: "b \<le> a" and a53: "a < 2 ^ 53"
  shows "map_sum id math_floor (py_truediv a b) = Inr (a div b)"
proof -
  let ?q = "of_int a / of_int b :: rat"
  define e where "e = binade a b"
  have a: "0 < a" using b ba by simp
  have rb: "(0::rat) < of_int b" using b by simp
  have q1: "1 \<le> ?q" using b ba by simp
  have qa: "?q \<le> of_int a"
  proof -
    have "(of_int a :: rat) \<le> of_int a * of_int b"
      using a b by (simp add: mult_le_cancel_left1)
    then show ?thesis using rb by (simp add: pos_divide_le_eq)
  qed
  from binade_bounds [OF a b]
  have lo: "(2::rat) powi e \<le> ?q" and up: "?q < (2::rat) powi (e + 1)"
    by (simp_all add: e_def)
  have e0: "0 \<le> e"
  proof (rule ccontr)
    assume "\<not> 0 \<le> e"
    then have "e + 1 \<le> 0" by simp
    then have "(2::rat) powi (e + 1) \<le> 2 powi 0"
      by (intro power_int_increasing) simp_all
    with up q1 show False by simp
  qed
  have e52: "e \<le> 52"
  proof (rule ccontr)
    assume "\<not> e \<le> 52"
    then have "53 \<le> e" by simp
    then have "(2::rat) powi 53 \<le> 2 powi e"
      by (intro power_int_increasing) simp_all
    moreover have "(of_int a :: rat) < 2 ^ 53"
      using a53 by (metis of_int_less_iff of_int_numeral of_int_power)
    ultimately show False using lo qa by simp
  qed
  define k where "k = nat (52 - e)"
  define c where "c = (2::int) ^ k"
  have cpos: "0 < c" by (simp add: c_def)
  have quantum: "(2::rat) powi (max e (- 1022) - 52) = 1 / of_int c"
  proof -
    have "max e (- 1022) - 52 = - int k"
      using e0 e52 by (simp add: k_def)
    then have "(2::rat) powi (max e (- 1022) - 52) = 2 powi (- int k)"
      by (simp only:)
    also have "\<dots> = inverse (2 ^ k)"
      by (simp add: power_int_minus)
    finally show ?thesis
      by (simp add: c_def inverse_eq_divide)
  qed
  define m where "m = round_half_even (of_int a / of_int b * of_int c)"
  define n where "n = a div b"
  have rc: "(0::rat) < of_int c" using cpos by simp
  have bc: "b < 2 * c"
  proof -
    have f1: "(2::rat) powi e * of_int b \<le> of_int a"
      using lo rb by (simp add: pos_le_divide_eq)
    have f2: "(of_int a :: rat) < 2 ^ 53"
      using a53 by (metis of_int_less_iff of_int_numeral of_int_power)
    have f3: "(2::rat) ^ 53 = 2 powi e * (2 * of_int c)"
    proof -
      have "(2::rat) powi e * (2 * of_int c) = 2 powi e * 2 powi (1 + int k)"
        by (simp add: c_def power_int_add)
      also have "\<dots> = 2 powi (e + (1 + int k))"
        by (simp add: power_int_add)
      also have "e + (1 + int k) = 53"
        using e52 by (simp add: k_def)
      finally show ?thesis by simp
    qed
    from f1 f2 have "(2::rat) powi e * of_int b < 2 ^ 53"
      by (rule le_less_trans)
    then have "(2::rat) powi e * of_int b < 2 powi e * (2 * of_int c)"
      by (simp only: f3)
    moreover have "(0::rat) < 2 powi e"
      by (simp add: zero_less_power_int)
    ultimately have "(of_int b :: rat) < 2 * of_int c"
      by (simp only: mult_less_cancel_left_pos)
    then have "(of_int b :: rat) < of_int (2 * c)" by simp
    then show ?thesis by (simp only: of_int_less_iff)
  qed
  define r where "r = a mod b"
  have decomp: "a = n * b + r" and r0: "0 \<le> r"
    using b by (simp_all add: n_def r_def)
  have "r < b"
    using b unfolding r_def by (rule pos_mod_bound)
  then have rb': "r + 1 \<le> b" by simp
  define d where "d = (of_int c / of_int b :: rat)"
  define x where "x = ?q * of_int c"
  have x: "x = of_int (n * c) + of_int r * d"
    using rb by (simp add: x_def d_def decomp field_simps)
  have dpos: "0 < d"
    using rb rc by (simp add: d_def)
  have "0 \<le> of_int r * d"
    using r0 dpos by simp
  then have low: "of_int (n * c) \<le> x"
    by (simp only: x le_add_same_cancel1)
  have gap: "1 / 2 < d"
  proof -
    have "(of_int b :: rat) < 2 * of_int c"
      using bc by (metis of_int_less_iff of_int_mult of_int_numeral)
    then show ?thesis using rb by (simp add: d_def pos_less_divide_eq)
  qed
  have high: "x \<le> of_int ((n + 1) * c) - d"
  proof -
    have "(of_int r :: rat) \<le> of_int b - 1"
      using rb' by (metis of_int_le_iff of_int_add of_int_1 le_diff_eq)
    then have "of_int r * d \<le> (of_int b - 1) * d"
      using dpos by (intro mult_right_mono) simp_all
    also have "\<dots> = of_int c - d"
      using rb by (simp add: d_def field_simps)
    finally have "of_int r * d \<le> of_int c - d" .
    moreover have "(of_int ((n + 1) * c) :: rat) = of_int (n * c) + of_int c"
      by (simp add: algebra_simps)
    ultimately show ?thesis unfolding x by linarith
  qed
  from round_half_even_bounds [of x]
  have m_hi: "of_int m \<le> x + 1 / 2" and m_lo: "x - 1 / 2 \<le> of_int m"
    by (simp_all add: m_def x_def)
  have "(of_int (n * c) :: rat) - 1 < of_int m"
    using low m_lo by linarith
  then have "(of_int (n * c - 1) :: rat) < of_int m" by simp
  then have "n * c - 1 < m" by (simp only: of_int_less_iff)
  then have m1: "n * c \<le> m" by simp
  have "(of_int m :: rat) < of_int ((n + 1) * c)"
    using high gap m_hi by linarith
  then have m2: "m < (n + 1) * c" by (simp only: of_int_less_iff)
  have mdiv: "m div c = n"
  proof -
    have "m = n * c + (m - n * c)" by simp
    moreover have "0 \<le> m - n * c" and "m - n * c < c"
      using m1 m2 by (simp_all add: algebra_simps)
    ultimately show ?thesis
      using cpos by (metis div_mult_self3 div_pos_pos_trivial add.right_neutral less_irrefl)
  qed
  have small: "\<not> (2::rat) powi 1024 \<le> of_int m / of_int c"
  proof -
    have "(of_int m :: rat) / of_int c < of_int (n + 1)"
      using m2 rc by (simp add: pos_divide_less_eq) (metis of_int_less_iff of_int_mult of_int_add of_int_1)
    moreover have "n \<le> a"
    proof -
      have "0 \<le> n"
        using a b by (simp add: n_def pos_imp_zdiv_nonneg_iff)
      then have "n * 1 \<le> n * b"
        using b by (intro mult_left_mono) simp_all
      then show ?thesis using decomp r0 by linarith
    qed
    then have "(of_int (n + 1) :: rat) \<le> of_int (2 ^ 53)"
      using a53 by (simp only: of_int_le_iff)
    moreover have "(of_int ((2::int) ^ 53) :: rat) < 2 powi 1024"
      by simp
    ultimately show ?thesis by linarith
  qed
  have abs: "\<bar>a\<bar> = a" "\<bar>b\<bar> = b"
    using a b by simp_all
  have mm: "round_half_even
      (of_int \<bar>a\<bar> / of_int \<bar>b\<bar> / 2 powi (max (binade \<bar>a\<bar> \<bar>b\<bar>) (- 1022) - 52)) = m"
    by (simp only: abs e_def [symmetric] quantum) (simp add: m_def)
  have rr: "of_int m * (2::rat) powi (max (binade \<bar>a\<bar> \<bar>b\<bar>) (- 1022) - 52)
      = of_int m / of_int c"
    by (simp only: abs e_def [symmetric] quantum) simp
  have "py_truediv a b = Inr (of_int m / of_int c)"
    using a b small
    by (simp only: py_truediv_def Let_def mm rr) simp
  then show ?thesis
    by (simp add: math_floor_def floor_divide_of_int_eq mdiv n_def)
qed

lemma Grid_max_grid_w_exact:
  assumes "0 < biggest_size objs + c_spacing c"
    and "biggest_size objs + c_spacing c \<le> fst (c_size c)"
    and "fst (c_size c) < 2 ^ 53"
  shows "Grid_max_grid_w c objs = Done (fst (c_size c) div (biggest_size objs + c_spacing c))"
  using floor_truediv_exact [OF assms]
  by (cases "py_truediv (fst (c_size c)) (biggest_size objs + c_spacing c)")
     (simp_all add: Grid_max_grid_w_def)

text \<open>Two quotients outside that range.\<close>

lemma py_truediv_20_40: "py_truediv 20 40 = Inr (1 / 2)"
  by code_simp

lemma math_floor_half: "math_floor (1 / 2) = 0"
  by code_simp

lemma math_floor_numeral: "math_floor (numeral n) = numeral n"
  by (simp add: math_floor_def)

lemma py_truediv_wide: "py_truediv 9007199254740993 1 = Inr 9007199254740992"
  by code_simp

text \<open>The dictionary: a fresh key is appended, and deleting it again restores the list.\<close>

lemma dict_set_absent:
  "\<not> dict_contains k d \<Longrightarrow> dict_set k v d = d @ [(k, v)]"
  by (induction d) (auto simp: dict_contains_def)

lemma dict_del_dict_set:
  "\<not> dict_contains k d \<Longrightarrow> dict_del k (dict_set k v d) = d"
  by (induction d) (auto simp: dict_contains_def)

text \<open>The largest size is the size of some member.\<close>

lemma biggest_size_all_30:
  assumes all: "\<forall>d\<in>set ds. shape_size (drawable_shape d) = 30" and ne: "ds \<noteq> []"
  shows "biggest_size ds = 30"
proof -
  let ?ss = "map (\<lambda>o'. shape_size (drawable_shape o')) ds"
  have "sort ?ss \<noteq> []"
    using ne by (metis length_sort length_map length_0_conv)
  then have "last (sort ?ss) \<in> set (sort ?ss)"
    by (rule last_in_set)
  then have "last (sort ?ss) \<in> set ?ss"
    by (simp only: set_sort)
  moreover have "hd (rev (sort ?ss)) = last (sort ?ss)"
    by (rule hd_rev)
  ultimately have "hd (rev (sort ?ss)) \<in> set ?ss" by simp
  with all show ?thesis by (auto simp: biggest_size_def)
qed

text \<open>
  Chunks of a positive size: they concatenate to the sequence, none is empty or longer
  than the size, and every chunk but the last is full.
\<close>

lemma concat_chunks_of: "0 < n \<Longrightarrow> concat (chunks_of n xs) = xs"
proof (induction n xs rule: chunks_of.induct)
  case (1 n xs)
  then show ?case
    by (subst chunks_of.simps) auto
qed

lemma chunks_of_bounds:
  "ch \<in> set (chunks_of n xs) \<Longrightarrow> ch \<noteq> [] \<and> length ch \<le> n"
proof (induction n xs rule: chunks_of.induct)
  case (1 n xs)
  from "1.prems" have ne: "\<not> (n = 0 \<or> xs = [])"
    by (subst (asm) chunks_of.simps) (auto split: if_splits)
  from "1.prems" ne have "ch = take n xs \<or> ch \<in> set (chunks_of n (drop n xs))"
    by (subst (asm) chunks_of.simps) auto
  then show ?case
    using ne "1.IH" by auto
qed

lemma chunks_of_full:
  "ch \<in> set (butlast (chunks_of n xs)) \<Longrightarrow> length ch = n"
proof (induction n xs rule: chunks_of.induct)
  case (1 n xs)
  show ?case
  proof (cases "n = 0 \<or> xs = []")
    case True
    with "1.prems" show ?thesis
      by (subst (asm) chunks_of.simps) simp
  next
    case False
    then have unfold: "chunks_of n xs = take n xs # chunks_of n (drop n xs)"
      by (subst chunks_of.simps) simp
    show ?thesis
    proof (cases "chunks_of n (drop n xs) = []")
      case True
      with "1.prems" unfold show ?thesis by simp
    next
      case rest: False
      then have "drop n xs \<noteq> []"
        by (subst (asm) chunks_of.simps) (auto split: if_splits)
      then have "n \<le> length xs" by auto
      with "1.prems" unfold rest "1.IH" [OF False] show ?thesis
        by auto
    qed
  qed
qed

lemma chunks_of_5_2:
  assumes "length xs = 5"
  shows "map length (chunks_of 2 xs) = [2, 2, 1]"
proof -
  from assms obtain a b c d e where "xs = [a, b, c, d, e]"
    by (auto simp: length_Suc_conv numeral_eq_Suc)
  then show ?thesis
    by (simp add: chunks_of.simps)
qed

subsection \<open>Reading the configuration back\<close>

text \<open>
  C1 asks that every getter return the stored value of its own field, and in particular
  that \<open>size\<close> return the width and height that were set. The getter of \<open>size\<close> returns
  the position instead: on the Row built with size \<open>(100, 50)\<close> at position \<open>(0, 0)\<close>
  the stored size is \<open>(100, 50)\<close> and the getter answers \<open>(0, 0)\<close>.
\<close>

theorem size_getter_returns_position:
  "GContainerRow_init 0 (100, 50) (0, 0) None Align_NoAlign (Inst Fill_Left) Hidden 0
     = Inr (scenario_row\<lparr>c_objects := [], c_spacing := 5\<rparr>)
   \<and> c_size (scenario_row\<lparr>c_objects := [], c_spacing := 5\<rparr>) = (100, 50)
   \<and> size_getter (scenario_row\<lparr>c_objects := [], c_spacing := 5\<rparr>) = (0, 0)"
  by (simp add: GContainerRow_init_def GContainerBase_init_def helper_set_shape_def
      GFillDirection_members_def size_getter_def scenario_row_def default_shape_def)

subsection \<open>Size validation\<close>

text \<open>
  C2 as stated asks that construction with a size such as \<open>(0, 10)\<close> raise. It does not:
  the constructor assigns the size without a check, and the Row is built.
\<close>

theorem constructor_accepts_nonpositive_size:
  "GContainerRow_init 0 (0, 10) (0, 0) None Align_NoAlign (Inst Fill_Left) Visible 5
     = Inr \<lparr>c_id = 0, c_objects = [], c_size = (0, 10), c_position = (0, 0),
            c_shape = default_shape, c_align = Align_NoAlign, c_fill_direction = Fill_Left,
            c_overflow = Visible, c_padding = 5, c_spacing = 5\<rparr>"
  by (simp add: GContainerRow_init_def GContainerBase_init_def helper_set_shape_def
      GFillDirection_members_def default_shape_def)

text \<open>
  C2, amended. Mutating the size to a pair with a dimension that is zero or negative
  raises ValueError and leaves the container, its stored size included, as it was.
  The constructors perform no size check: the base constructor and the constructors
  of Row, Column and Grid store the size argument as given, whatever it is.
\<close>

theorem size_rejected_on_mutation_only:
  "(fst s \<le> 0 \<or> snd s \<le> 0 \<longrightarrow>
      size_setter s c = (Some (ValueError ''Negative or zero values supplied to size''), c))
   \<and> c_size (GContainerBase_init n s p sh a f ov pad sp) = s
   \<and> map_sum id c_size (GContainerRow_init n s p sh a (Inst fd) ov pad) = Inr s
   \<and> map_sum id c_size (GContainerColumn_init n s p sh a (Inst fd) ov pad) = Inr s
   \<and> map_sum id c_size (GcontainerGrid_init n s p sh a (Inst fd) ov pad) = Inr s"
  by (simp add: size_setter_def GContainerBase_init_def Row_init_Inst
      Column_init_Inst Grid_init_Inst GFillDirection_member)

theorem size_rejected_on_mutation_only_witness:
  "size_setter (0, 10) scenario_base
     = (Some (ValueError ''Negative or zero values supplied to size''), scenario_base)
   \<and> size_setter (- 5, 5) scenario_base
     = (Some (ValueError ''Negative or zero values supplied to size''), scenario_base)
   \<and> c_size scenario_base = (100, 50)
   \<and> map_sum id c_size
       (GContainerRow_init 0 (- 5, 5) (0, 0) None Align_NoAlign (Inst Fill_Left) Visible 5)
     = Inr (- 5, 5)"
  using size_rejected_on_mutation_only [of "(0, 10)" scenario_base]
    size_rejected_on_mutation_only [of "(- 5, 5)" scenario_base 0 "(0, 0)" None Align_NoAlign
      Fill_Left Visible 5 5 Fill_Left]
  by (simp add: scenario_base_def GContainerBase_init_def)

subsection \<open>Fill direction collapse\<close>

text \<open>
  C3. On a Row and on a Column container, assigning the fill direction TopLeft or
  BottomLeft stores Left, assigning TopRight or BottomRight stores Right, and Left and
  Right are stored as they are. On a Grid container, assigning Left stores TopLeft,
  assigning Right stores TopRight, and the four corner values are stored as they are.
  No assignment of a member raises, and no other field changes.
\<close>

theorem fill_direction_collapse:
  "GContainerRow_fill_direction_setter (Inst Fill_TopLeft) c = (None, c\<lparr>c_fill_direction := Fill_Left\<rparr>)
   \<and> GContainerRow_fill_direction_setter (Inst Fill_BottomLeft) c = (None, c\<lparr>c_fill_direction := Fill_Left\<rparr>)
   \<and> GContainerRow_fill_direction_setter (Inst Fill_TopRight) c = (None, c\<lparr>c_fill_direction := Fill_Right\<rparr>)
   \<and> GContainerRow_fill_direction_setter (Inst Fill_BottomRight) c = (None, c\<lparr>c_fill_direction := Fill_Right\<rparr>)
   \<and> GContainerRow_fill_direction_setter (Inst Fill_Left) c = (None, c\<lparr>c_fill_direction := Fill_Left\<rparr>)
   \<and> GContainerRow_fill_direction_setter (Inst Fill_Right) c = (None, c\<lparr>c_fill_direction := Fill_Right\<rparr>)
   \<and> GContainerColumn_fill_direction_setter (Inst Fill_TopLeft) c = (None, c\<lparr>c_fill_direction := Fill_Left\<rparr>)
   \<and> GContainerColumn_fill_direction_setter (Inst Fill_BottomLeft) c = (None, c\<lparr>c_fill_direction := Fill_Left\<rparr>)
   \<and> GContainerColumn_fill_direction_setter (Inst Fill_TopRight) c = (None, c\<lparr>c_fill_direction := Fill_Right\<rparr>)
   \<and> GContainerColumn_fill_direction_setter (Inst Fill_BottomRight) c = (None, c\<lparr>c_fill_direction := Fill_Right\<rparr>)
   \<and> GContainerColumn_fill_direction_setter (Inst Fill_Left) c = (None, c\<lparr>c_fill_direction := Fill_Left\<rparr>)
   \<and> GContainerColumn_fill_direction_setter (Inst Fill_Right) c = (None, c\<lparr>c_fill_direction := Fill_Right\<rparr>)
   \<and> GcontainerGrid_fill_direction_setter (Inst Fill_Left) c = (None, c\<lparr>c_fill_direction := Fill_TopLeft\<rparr>)
   \<and> GcontainerGrid_fill_direction_setter (Inst Fill_Right) c = (None, c\<lparr>c_fill_direction := Fill_TopRight\<rparr>)
   \<and> GcontainerGrid_fill_direction_setter (Inst Fill_TopLeft) c = (None, c\<lparr>c_fill_direction := Fill_TopLeft\<rparr>)
   \<and> GcontainerGrid_fill_direction_setter (Inst Fill_TopRight) c = (None, c\<lparr>c_fill_direction := Fill_TopRight\<rparr>)
   \<and> GcontainerGrid_fill_direction_setter (Inst Fill_BottomLeft) c = (None, c\<lparr>c_fill_direction := Fill_BottomLeft\<rparr>)
   \<and> GcontainerGrid_fill_direction_setter (Inst Fill_BottomRight) c = (None, c\<lparr>c_fill_direction := Fill_BottomRight\<rparr>)"
  by (simp add: GFillDirection_members_def)

text \<open>The collapse on the scenario container: TopLeft on a Row, Right on a Grid.\<close>

theorem fill_direction_collapse_witness:
  "c_fill_direction (snd (GContainerRow_fill_direction_setter (Inst Fill_TopLeft) scenario_grid))
     = Fill_Left
   \<and> c_fill_direction (snd (GcontainerGrid_fill_direction_setter (Inst Fill_Right) scenario_row))
     = Fill_TopRight"
  using fill_direction_collapse [of scenario_grid] fill_direction_collapse [of scenario_row]
  by simp

subsection \<open>Overflow culling in a Row\<close>

text \<open>
  C4. A Row container of size \<open>(100, 50)\<close> at position \<open>(0, 0)\<close> with padding 0, spacing 0,
  fill direction Left and overflow Hidden holds five square drawables of shape size 30.
  The largest size is 30; the draw pass computes the slot x-coordinates 0, 30, 60, 90,
  120 for the indices 0 to 4 in insertion order; the overflow test skips the indices 3
  and 4 (their slots end at 120 and 150, beyond the width 100) and no other; the calls
  issued are the frame, then shape and label of the members 0, 1 and 2, each shape a
  square of side 30 at its slot. The container, its five members included, is the same
  after the pass.
\<close>

theorem row_overflow_culling_scenario:
  assumes "c_size c = (100, 50)" and "c_position c = (0, 0)"
    and "c_padding c = 0" and "c_spacing c = 0"
    and "c_fill_direction c = Fill_Left" and "c_overflow c = Hidden"
    and "dict_values (c_objects c) = [d0, d1, d2, d3, d4]"
    and "\<forall>d\<in>set [d0, d1, d2, d3, d4].
           shape_type (drawable_shape d) = Member Square \<and> shape_size (drawable_shape d) = 30"
  shows "biggest_size (dict_values (c_objects c)) = 30
    \<and> map (Row_x_l c 30) [0, 1, 2, 3, 4] = [0, 30, 60, 90, 120]
    \<and> map (\<lambda>i. Row_culled c 30 (Row_x_l c 30 i)) [0, 1, 2, 3, 4]
        = [False, False, False, True, True]
    \<and> GContainerRow_draw centre c =
        (c, draw_frame c @
          [Fill_rect (color (drawable_shape d0)) (0, 0, 30, 30),
           Blit_text (drawable_id d0)
             (label_position centre (Fill_rect (color (drawable_shape d0)) (0, 0, 30, 30)) 30),
           Fill_rect (color (drawable_shape d1)) (30, 0, 30, 30),
           Blit_text (drawable_id d1)
             (label_position centre (Fill_rect (color (drawable_shape d1)) (30, 0, 30, 30)) 30),
           Fill_rect (color (drawable_shape d2)) (60, 0, 30, 30),
           Blit_text (drawable_id d2)
             (label_position centre (Fill_rect (color (drawable_shape d2)) (60, 0, 30, 30)) 30)])"
proof -
  have big: "biggest_size (dict_values (c_objects c)) = 30"
    using assms(7,8) biggest_size_all_30 [of "[d0, d1, d2, d3, d4]"] by simp
  have xs: "map (Row_x_l c 30) [0, 1, 2, 3, 4] = [0, 30, 60, 90, 120]"
    using assms(1-5) by (simp add: Row_x_l_def)
  have culled: "map (\<lambda>i. Row_culled c 30 (Row_x_l c 30 i)) [0, 1, 2, 3, 4]
        = [False, False, False, True, True]"
    using assms(1-6) by (simp add: Row_x_l_def Row_culled_def)
  have "length (dict_values (c_objects c)) = 5"
    using assms(7) by simp
  then have members: "len c \<noteq> 0"
    by (simp add: len_def dict_values_def)
  have loop: "Row_loop centre c 30 0 [d0, d1, d2, d3, d4] =
      draw_item centre 30 d0 0 0 @ draw_item centre 30 d1 30 0 @ draw_item centre 30 d2 60 0"
    using assms(1-6) by (simp add: Row_x_l_def Row_culled_def)
  have items: "draw_item centre 30 d0 0 0 @ draw_item centre 30 d1 30 0 @ draw_item centre 30 d2 60 0 =
          [Fill_rect (color (drawable_shape d0)) (0, 0, 30, 30),
           Blit_text (drawable_id d0)
             (label_position centre (Fill_rect (color (drawable_shape d0)) (0, 0, 30, 30)) 30),
           Fill_rect (color (drawable_shape d1)) (30, 0, 30, 30),
           Blit_text (drawable_id d1)
             (label_position centre (Fill_rect (color (drawable_shape d1)) (30, 0, 30, 30)) 30),
           Fill_rect (color (drawable_shape d2)) (60, 0, 30, 30),
           Blit_text (drawable_id d2)
             (label_position centre (Fill_rect (color (drawable_shape d2)) (60, 0, 30, 30)) 30)]"
    using assms(8) by (simp add: draw_item_def Let_def)
  have draw: "GContainerRow_draw centre c =
      (c, draw_frame c @ Row_loop centre c 30 0 [d0, d1, d2, d3, d4])"
    using members big assms(7) by (simp add: GContainerRow_draw_def)
  from big xs culled draw loop items show ?thesis by simp
qed

text \<open>The scenario run on a recording surface: seven calls, the frame first.\<close>

theorem row_overflow_culling_scenario_witness:
  "map (Row_x_l scenario_row 30) [0, 1, 2, 3, 4] = [0, 30, 60, 90, 120]
   \<and> GContainerRow_draw recording_centre scenario_row =
       (scenario_row,
        [Draw_rect White (0, 0, 100, 50) 2,
         Fill_rect (RGB 255 0 0) (0, 0, 30, 30), Blit_text 1 (15 / 2, 15 / 2),
         Fill_rect (RGB 255 0 0) (30, 0, 30, 30), Blit_text 2 (75 / 2, 15 / 2),
         Fill_rect (RGB 255 0 0) (60, 0, 30, 30), Blit_text 3 (135 / 2, 15 / 2)])"
  using row_overflow_culling_scenario [of scenario_row
      "square30 1" "square30 2" "square30 3" "square30 4" "square30 5" recording_centre]
  by (simp add: scenario_row_def square30_def default_shape_def dict_values_def
      draw_frame_def shape_getter_def label_position_def recording_centre_def)

subsection \<open>Overflow culling in a Grid\<close>

text \<open>
  C5 asks that, for the TopLeft fill, a cell be culled on the vertical axis exactly when
  \<open>y_cell + biggest_size > y + container_height\<close>. The source compares with
  \<open>y + self.size[1]\<close>, and the getter of \<open>size\<close> returns the position: the bound is
  \<open>y + y\<close>. On the Grid of size \<open>(100, 100)\<close> at \<open>(0, 0)\<close> with one square of size 30,
  the cell \<open>(0, 0)\<close> to \<open>(30, 30)\<close> lies inside the container (30 is at most
  \<open>0 + 100\<close>), yet the test culls it and the pass draws the frame only.
\<close>

theorem grid_topleft_culls_cell_inside:
  "map_sum id (enter (square30 1))
       (GcontainerGrid_init 0 (100, 100) (0, 0) None Align_NoAlign (Inst Fill_TopLeft) Hidden 0)
     = Inr (None, scenario_grid)
   \<and> biggest_size (dict_values (c_objects scenario_grid)) = 30
   \<and> Grid_slot scenario_grid 30 0 0 = (0, 0)
   \<and> 0 + 30 \<le> snd (c_position scenario_grid) + snd (c_size scenario_grid)
   \<and> Grid_culled scenario_grid 30 0 0
   \<and> GcontainerGrid_draw centre scenario_grid
       = (scenario_grid, [Draw_rect White (0, 0, 100, 100) 2], Done ())"
proof -
  have built: "map_sum id (enter (square30 1))
       (GcontainerGrid_init 0 (100, 100) (0, 0) None Align_NoAlign (Inst Fill_TopLeft) Hidden 0)
     = Inr (None, scenario_grid)"
    by (simp add: GcontainerGrid_init_def GContainerBase_init_def helper_set_shape_def
        GFillDirection_members_def enter_def dict_contains_def scenario_grid_def
        default_shape_def square30_def)
  have fields: "c_objects scenario_grid = [(1, square30 1)]"
    "c_size scenario_grid = (100, 100)" "c_position scenario_grid = (0, 0)"
    "c_fill_direction scenario_grid = Fill_TopLeft" "c_overflow scenario_grid = Hidden"
    "c_padding scenario_grid = 0" "c_spacing scenario_grid = 5"
    "c_shape scenario_grid = default_shape"
    by (simp_all add: scenario_grid_def)
  have big: "biggest_size [square30 1] = 30"
    by (simp add: biggest_size_def square30_def)
  have cols: "Grid_max_grid_w scenario_grid [square30 1] = Done 2"
    using Grid_max_grid_w_exact [of "[square30 1]" scenario_grid]
    by (simp add: big fields del: One_nat_def)
  have chunked: "Grid_chunked scenario_grid [square30 1] = Done [[square30 1]]"
    by (simp add: Grid_chunked_def cols array_chunks_def chunks_of.simps del: One_nat_def)
  have slot: "Grid_slot scenario_grid 30 0 0 = (0, 0)"
    by (simp add: Grid_slot_def fields)
  have culled: "Grid_culled scenario_grid 30 0 0"
    by (simp add: Grid_culled_def size_getter_def fields)
  have drawn: "GcontainerGrid_draw centre scenario_grid
       = (scenario_grid, [Draw_rect White (0, 0, 100, 100) 2], Done ())"
    by (simp add: GcontainerGrid_draw_def len_def dict_values_def fields big chunked slot culled
        draw_frame_def shape_getter_def default_shape_def del: One_nat_def)
  from built big slot culled drawn show ?thesis
    by (simp add: fields dict_values_def del: One_nat_def)
qed

subsection \<open>Grid chunking\<close>

text \<open>
  C6 as stated speaks of every Grid draw with at least one member. On a Grid of width
  20 with spacing 10 and one member of size 30 the column count is
  \<open>floor (20 / 40) = 0\<close>: the member cannot lie in a row of that many items, and the
  chunking is the case the spec leaves undefined. On a Grid of width \<open>2 ^ 53 + 1\<close> with
  spacing 0 and one member of size 1 the true division rounds the quotient to
  \<open>2 ^ 53\<close>, which is not the floor of the exact quotient.
\<close>

theorem grid_chunking_undefined_when_no_column_fits:
  "dict_values (c_objects scenario_narrow) = [square30 1]
   \<and> biggest_size (dict_values (c_objects scenario_narrow)) = 30
   \<and> Grid_max_grid_w scenario_narrow (dict_values (c_objects scenario_narrow)) = Done 0
   \<and> Grid_chunked scenario_narrow (dict_values (c_objects scenario_narrow)) = Unspecified
   \<and> biggest_size (dict_values (c_objects scenario_wide)) + c_spacing scenario_wide = 1
   \<and> fst (c_size scenario_wide)
        div (biggest_size (dict_values (c_objects scenario_wide)) + c_spacing scenario_wide)
       = 9007199254740993
   \<and> Grid_max_grid_w scenario_wide (dict_values (c_objects scenario_wide))
       = Done 9007199254740992"
  by (simp add: scenario_narrow_def scenario_wide_def square30_def biggest_size_def
      dict_values_def Grid_chunked_def Grid_max_grid_w_def array_chunks_def
      py_truediv_20_40 py_truediv_wide math_floor_half math_floor_numeral)

text \<open>
  C6, amended. For every Grid draw with at least one member in which
  \<open>biggest_size + spacing\<close> is positive and at most the width (one column fits) and
  the width is below \<open>2 ^ 53\<close> (the true division is exact), the column count is
  the floor of the exact quotient \<open>width / (biggest_size + spacing)\<close>, and the members are
  partitioned in insertion order into rows: the rows concatenate to the members, no
  row is empty or longer than the column count, and every row but the last has exactly
  that many items. Concretely, width 100, biggest size 30 and spacing 10 give 2
  columns, and 5 members give rows of sizes 2, 2, 1.
\<close>

theorem grid_chunking_when_a_column_fits:
  assumes "c_objects c \<noteq> []"
    and "0 < biggest_size (dict_values (c_objects c)) + c_spacing c"
    and "biggest_size (dict_values (c_objects c)) + c_spacing c \<le> fst (c_size c)"
    and "fst (c_size c) < 2 ^ 53"
  shows "Grid_max_grid_w c (dict_values (c_objects c))
           = Done (fst (c_size c) div (biggest_size (dict_values (c_objects c)) + c_spacing c))
    \<and> (\<exists>chunked. Grid_chunked c (dict_values (c_objects c)) = Done chunked
          \<and> concat chunked = dict_values (c_objects c)
          \<and> (\<forall>ch\<in>set chunked. ch \<noteq> [] \<and>
                int (length ch) \<le> fst (c_size c) div (biggest_size (dict_values (c_objects c)) + c_spacing c))
          \<and> (\<forall>ch\<in>set (butlast chunked).
                int (length ch) = fst (c_size c) div (biggest_size (dict_values (c_objects c)) + c_spacing c)))
    \<and> (fst (c_size c) = 100 \<and> biggest_size (dict_values (c_objects c)) = 30 \<and> c_spacing c = 10
          \<and> len c = 5 \<longrightarrow>
        Grid_max_grid_w c (dict_values (c_objects c)) = Done 2
        \<and> map_attempt (map length) (Grid_chunked c (dict_values (c_objects c))) = Done [2, 2, 1])"
proof -
  let ?objs = "dict_values (c_objects c)"
  let ?d = "biggest_size ?objs + c_spacing c"
  let ?cols = "fst (c_size c) div ?d"
  have cols: "Grid_max_grid_w c ?objs = Done ?cols"
    using assms(2-4) by (rule Grid_max_grid_w_exact)
  have "?d div ?d \<le> ?cols"
    using assms(2,3) by (intro zdiv_mono1) simp_all
  then have pos: "1 \<le> ?cols"
    using assms(2) by simp
  then have chunked: "Grid_chunked c ?objs = Done (chunks_of (nat ?cols) ?objs)"
    using cols by (simp add: Grid_chunked_def array_chunks_def)
  have n: "0 < nat ?cols" using pos by simp
  have whole: "concat (chunks_of (nat ?cols) ?objs) = ?objs"
    using n by (rule concat_chunks_of)
  have bounds: "\<forall>ch\<in>set (chunks_of (nat ?cols) ?objs). ch \<noteq> [] \<and> int (length ch) \<le> ?cols"
    using chunks_of_bounds [of _ "nat ?cols" ?objs] pos by fastforce
  have full: "\<forall>ch\<in>set (butlast (chunks_of (nat ?cols) ?objs)). int (length ch) = ?cols"
    using chunks_of_full [of _ "nat ?cols" ?objs] pos by fastforce
  have concrete: "fst (c_size c) = 100 \<and> biggest_size ?objs = 30 \<and> c_spacing c = 10 \<and> len c = 5 \<longrightarrow>
        Grid_max_grid_w c ?objs = Done 2
        \<and> map_attempt (map length) (Grid_chunked c ?objs) = Done [2, 2, 1]"
  proof
    assume s: "fst (c_size c) = 100 \<and> biggest_size ?objs = 30 \<and> c_spacing c = 10 \<and> len c = 5"
    then have two: "?cols = 2" by simp
    from s have "length ?objs = 5" by (simp add: len_def dict_values_def)
    then have "map length (chunks_of 2 ?objs) = [2, 2, 1]"
      by (rule chunks_of_5_2)
    with two cols chunked show "Grid_max_grid_w c ?objs = Done 2
        \<and> map_attempt (map length) (Grid_chunked c ?objs) = Done [2, 2, 1]"
      by simp
  qed
  from cols chunked whole bounds full concrete show ?thesis by simp
qed

text \<open>The chunking scenario itself: two columns, rows of two, two and one member.\<close>

theorem grid_chunking_when_a_column_fits_witness:
  "Grid_max_grid_w scenario_chunks (dict_values (c_objects scenario_chunks)) = Done 2
   \<and> Grid_chunked scenario_chunks (dict_values (c_objects scenario_chunks))
       = Done [[square30 1, square30 2], [square30 3, square30 4], [square30 5]]"
proof -
  let ?objs = "[square30 1, square30 2, square30 3, square30 4, square30 5]"
  have fields: "dict_values (c_objects scenario_chunks) = ?objs"
    "c_objects scenario_chunks \<noteq> []"
    "fst (c_size scenario_chunks) = 100" "c_spacing scenario_chunks = 10"
    by (simp_all add: scenario_chunks_def dict_values_def)
  have big: "biggest_size ?objs = 30"
    by (simp add: biggest_size_def square30_def)
  have five: "len scenario_chunks = 5"
    by (simp add: len_def scenario_chunks_def)
  from grid_chunking_when_a_column_fits [of scenario_chunks]
  have cols: "Grid_max_grid_w scenario_chunks ?objs = Done 2"
    and "\<exists>chunked. Grid_chunked scenario_chunks ?objs = Done chunked
          \<and> concat chunked = ?objs"
    and sizes: "map_attempt (map length) (Grid_chunked scenario_chunks ?objs) = Done [2, 2, 1]"
    by (auto simp: fields big five simp del: One_nat_def)
  then obtain chunked where ch: "Grid_chunked scenario_chunks ?objs = Done chunked"
    and whole: "concat chunked = ?objs"
    by blast
  from sizes ch have "map length chunked = [2, 2, 1]"
    by simp
  then obtain r1 r2 r3 where rows: "chunked = [r1, r2, r3]"
    and "length r1 = 2" and "length r2 = 2" and "length r3 = 1"
    by (auto simp: map_eq_Cons_conv)
  then obtain a b c d e where "r1 = [a, b]" and "r2 = [c, d]" and "r3 = [e]"
    by (auto simp: length_Suc_conv numeral_2_eq_2)
  with whole rows have "chunked = [[square30 1, square30 2], [square30 3, square30 4], [square30 5]]"
    by simp
  with cols ch show ?thesis
    by (simp add: fields)
qed

subsection \<open>Membership\<close>

text \<open>
  C7. For every container and every drawable \<open>d\<close> that the container does not hold:
  \<open>enter d\<close> succeeds, appends \<open>d\<close> and raises the count by one; \<open>leave d\<close> after it
  succeeds and gives back the container as it was before (so an empty one is empty
  again); a second \<open>enter d\<close> raises the duplicate error and leaves the container as
  the first left it; and \<open>leave d\<close> on the container that does not hold \<open>d\<close> raises the
  missing-member error and changes nothing.
\<close>

theorem enter_leave_membership:
  "\<not> dict_contains (py_id d) (c_objects c) \<longrightarrow>
      enter d c = (None, c\<lparr>c_objects := c_objects c @ [(py_id d, d)]\<rparr>)
      \<and> len (snd (enter d c)) = len c + 1
      \<and> leave d (snd (enter d c)) = (None, c)
      \<and> enter d (snd (enter d c))
          = (Some (Exception ''Object already in this container''), snd (enter d c))
      \<and> leave d c = (Some (Exception ''Object not in this container''), c)"
proof
  assume absent: "\<not> dict_contains (py_id d) (c_objects c)"
  let ?c' = "c\<lparr>c_objects := c_objects c @ [(py_id d, d)]\<rparr>"
  from absent have entered: "enter d c = (None, ?c')"
    by (simp add: enter_def dict_set_absent)
  have present: "dict_contains (py_id d) (c_objects ?c')"
    by (simp add: dict_contains_def)
  have "dict_del (py_id d) (c_objects c @ [(py_id d, d)]) = c_objects c"
    using absent dict_del_dict_set [of "py_id d" "c_objects c" d]
    by (simp add: dict_set_absent)
  then have left: "leave d ?c' = (None, c)"
    using present by (simp add: leave_def)
  have again: "enter d ?c' = (Some (Exception ''Object already in this container''), ?c')"
    using present by (simp add: enter_def)
  have missing: "leave d c = (Some (Exception ''Object not in this container''), c)"
    using absent by (simp add: leave_def)
  have counted: "len ?c' = len c + 1"
    by (simp add: len_def)
  from entered left again missing counted
  show "enter d c = (None, ?c')
      \<and> len (snd (enter d c)) = len c + 1
      \<and> leave d (snd (enter d c)) = (None, c)
      \<and> enter d (snd (enter d c))
          = (Some (Exception ''Object already in this container''), snd (enter d c))
      \<and> leave d c = (Some (Exception ''Object not in this container''), c)"
    by simp
qed

text \<open>On the empty container: one member after \<open>enter\<close>, empty again after \<open>leave\<close>.\<close>

theorem enter_leave_membership_witness:
  "len scenario_base = 0
   \<and> enter (square30 7) scenario_base = (None, scenario_base\<lparr>c_objects := [(7, square30 7)]\<rparr>)
   \<and> leave (square30 7) (scenario_base\<lparr>c_objects := [(7, square30 7)]\<rparr>) = (None, scenario_base)
   \<and> enter (square30 7) (scenario_base\<lparr>c_objects := [(7, square30 7)]\<rparr>)
       = (Some (Exception ''Object already in this container''),
          scenario_base\<lparr>c_objects := [(7, square30 7)]\<rparr>)
   \<and> leave (square30 7) scenario_base
       = (Some (Exception ''Object not in this container''), scenario_base)"
proof -
  have empty: "c_objects scenario_base = []"
    by (simp add: scenario_base_def GContainerBase_init_def)
  then have absent: "\<not> dict_contains (py_id (square30 7)) (c_objects scenario_base)"
    by (simp add: dict_contains_def)
  have key: "py_id (square30 7) = 7"
    by (simp add: square30_def)
  from enter_leave_membership [of "square30 7" scenario_base] absent
  have "enter (square30 7) scenario_base
          = (None, scenario_base\<lparr>c_objects := c_objects scenario_base @ [(py_id (square30 7), square30 7)]\<rparr>)
      \<and> leave (square30 7) (snd (enter (square30 7) scenario_base)) = (None, scenario_base)
      \<and> enter (square30 7) (snd (enter (square30 7) scenario_base))
          = (Some (Exception ''Object already in this container''), snd (enter (square30 7) scenario_base))
      \<and> leave (square30 7) scenario_base
          = (Some (Exception ''Object not in this container''), scenario_base)"
    by blast
  with empty key show ?thesis
    by (auto simp: len_def)
qed

subsection \<open>Position validation\<close>

text \<open>
  C8. For every container and every position with a negative component, the position
  setter raises exactly when the alignment is NoAlign, and then changes nothing; under
  any other alignment the same position is accepted and stored.
\<close>

theorem negative_position_rejected_iff_NoAlign:
  "fst p < 0 \<or> snd p < 0 \<Longrightarrow>
     (fst (position_setter p c) \<noteq> None) = (c_align c = Align_NoAlign)
     \<and> position_setter p c =
         (if c_align c = Align_NoAlign
          then (Some (ValueError ''Negative values supplied to position''), c)
          else (None, c\<lparr>c_position := p\<rparr>))"
  by (simp add: position_setter_def)

theorem negative_position_rejected_iff_NoAlign_witness:
  "position_setter (- 1, 4) scenario_base
     = (Some (ValueError ''Negative values supplied to position''), scenario_base)
   \<and> position_setter (- 1, 4) (scenario_base\<lparr>c_align := Align_Center\<rparr>)
     = (None, scenario_base\<lparr>c_align := Align_Center, c_position := (- 1, 4)\<rparr>)"
  using negative_position_rejected_iff_NoAlign [of "(- 1, 4)" scenario_base]
    negative_position_rejected_iff_NoAlign [of "(- 1, 4)" "scenario_base\<lparr>c_align := Align_Center\<rparr>"]
  by (simp add: scenario_base_def GContainerBase_init_def)

subsection \<open>Shape assignment\<close>

text \<open>
  C9 as stated asks that a shape whose kind is outside the known set be refused. The
  setter compares the name of the kind with the names of the known kinds: a foreign
  kind that is named Square is no member of \<open>GShapeType\<close>, yet the setter accepts and
  stores the shape.
\<close>

theorem shape_setter_accepts_foreign_kind_named_Square:
  "Foreign ''Square'' \<notin> set (map Member GShapeType_members)
   \<and> shape_setter \<lparr>shape_type = Foreign ''Square'', shape_size = 10, border_size = 2, color = White\<rparr>
       scenario_base
     = (None, scenario_base
         \<lparr>c_shape := \<lparr>shape_type = Foreign ''Square'', shape_size = 10, border_size = 2, color = White\<rparr>\<rparr>)"
  by (simp add: shape_setter_def vals_def GShapeType_members_def)

text \<open>
  C9, amended. For every container, assigning through the shape setter a shape whose
  kind bears a name other than Square and Ellipse raises ValueError and leaves the
  container, its stored shape included, as it was. A shape whose kind bears one of the
  two names is accepted, whether or not the kind is a member of the known set: with a
  border size below \<open>-1\<close> it is stored with the border size set to \<open>-1\<close>, otherwise it
  is stored as it is.
\<close>

theorem shape_setter_rejects_kind_clamps_border:
  "(kind_name (shape_type s) \<notin> set [''Square'', ''Ellipse''] \<longrightarrow>
      shape_setter s c = (Some (ValueError ''Invalid shape type supplied''), c))
   \<and> (kind_name (shape_type s) \<in> set [''Square'', ''Ellipse''] \<and> border_size s < - 1 \<longrightarrow>
      shape_setter s c = (None, c\<lparr>c_shape := s\<lparr>border_size := - 1\<rparr>\<rparr>))
   \<and> (kind_name (shape_type s) \<in> set [''Square'', ''Ellipse''] \<and> - 1 \<le> border_size s \<longrightarrow>
      shape_setter s c = (None, c\<lparr>c_shape := s\<rparr>))"
  by (simp add: shape_setter_def vals_def GShapeType_members_def)

theorem shape_setter_rejects_kind_clamps_border_witness:
  "shape_setter \<lparr>shape_type = Foreign ''Triangle'', shape_size = 10, border_size = 2, color = White\<rparr>
       scenario_base
     = (Some (ValueError ''Invalid shape type supplied''), scenario_base)
   \<and> shape_setter \<lparr>shape_type = Member Ellipse, shape_size = 10, border_size = - 7, color = White\<rparr>
       scenario_base
     = (None, scenario_base
         \<lparr>c_shape := \<lparr>shape_type = Member Ellipse, shape_size = 10, border_size = - 1, color = White\<rparr>\<rparr>)"
  using shape_setter_rejects_kind_clamps_border [of
      "\<lparr>shape_type = Foreign ''Triangle'', shape_size = 10, border_size = 2, color = White\<rparr>"
      scenario_base]
    shape_setter_rejects_kind_clamps_border [of
      "\<lparr>shape_type = Member Ellipse, shape_size = 10, border_size = - 7, color = White\<rparr>"
      scenario_base]
  by simp

subsection \<open>The shape at construction\<close>

text \<open>
  C10. For every container constructed with an explicit shape, the base constructor
  and the constructors of Row, Column and Grid store that shape exactly as supplied,
  whatever its kind and border size: no kind check, no clamping. The default shape
  (Square, size 10, border 2, white) is stored when, and only when, no shape is
  supplied.
\<close>

theorem constructor_stores_shape_unchecked:
  "c_shape (GContainerBase_init n sz p (Some s) a f ov pad sp) = s
   \<and> map_sum id c_shape (GContainerRow_init n sz p (Some s) a (Inst fd) ov pad) = Inr s
   \<and> map_sum id c_shape (GContainerColumn_init n sz p (Some s) a (Inst fd) ov pad) = Inr s
   \<and> map_sum id c_shape (GcontainerGrid_init n sz p (Some s) a (Inst fd) ov pad) = Inr s
   \<and> c_shape (GContainerBase_init n sz p None a f ov pad sp)
       = \<lparr>shape_type = Member Square, shape_size = 10, border_size = 2, color = White\<rparr>
   \<and> map_sum id c_shape (GContainerRow_init n sz p None a (Inst fd) ov pad)
       = Inr \<lparr>shape_type = Member Square, shape_size = 10, border_size = 2, color = White\<rparr>
   \<and> map_sum id c_shape (GContainerColumn_init n sz p None a (Inst fd) ov pad)
       = Inr \<lparr>shape_type = Member Square, shape_size = 10, border_size = 2, color = White\<rparr>
   \<and> map_sum id c_shape (GcontainerGrid_init n sz p None a (Inst fd) ov pad)
       = Inr \<lparr>shape_type = Member Square, shape_size = 10, border_size = 2, color = White\<rparr>"
  by (simp add: GContainerBase_init_def Row_init_Inst Column_init_Inst Grid_init_Inst
      GFillDirection_member helper_set_shape_def)

text \<open>
  A shape of a foreign kind with border size \<open>-7\<close> is stored by the Row constructor as
  it is; the shape setter would have refused it.
\<close>

theorem constructor_stores_shape_unchecked_witness:
  "map_sum id c_shape
     (GContainerRow_init 0 (100, 50) (0, 0)
        (Some \<lparr>shape_type = Foreign ''Triangle'', shape_size = 10, border_size = - 7, color = White\<rparr>)
        Align_NoAlign (Inst Fill_Left) Visible 5)
     = Inr \<lparr>shape_type = Foreign ''Triangle'', shape_size = 10, border_size = - 7, color = White\<rparr>
   \<and> fst (shape_setter
        \<lparr>shape_type = Foreign ''Triangle'', shape_size = 10, border_size = - 7, color = White\<rparr>
        scenario_base) = Some (ValueError ''Invalid shape type supplied'')"
  using constructor_stores_shape_unchecked [of 0 "(100, 50)" "(0, 0)"
      "\<lparr>shape_type = Foreign ''Triangle'', shape_size = 10, border_size = - 7, color = White\<rparr>"
      Align_NoAlign Fill_Left Visible 5 5 Fill_Left]
  by (simp add: shape_setter_def vals_def GShapeType_members_def)

end
